theory Spec2Isabelle
  imports Complex_Main
begin

section \<open>Numbers\<close>

text \<open>
  The game is written in TypeScript, whose only numeric type is the IEEE double. The
  quantities that the code only ever counts in whole steps (\<open>level\<close>, \<open>score\<close>,
  \<open>closeMatches\<close>, \<open>timeLeft\<close>, the point totals) are integers here; the colour
  difference, the similarity, the combo multiplier and the time bonus are reals, so the
  arithmetic below is exact where the program rounds to the nearest double.

  \<open>Math.round\<close> rounds to the nearest integer and a half upwards.
\<close>

definition Math_round :: "real \<Rightarrow> int" where
  "Math_round x = \<lfloor>x + 1 / 2\<rfloor>"

section \<open>The difficulty model\<close>

text \<open>
  \<open>calculateDifficulty(level, performanceRating)\<close> of the component that carries its own
  difficulty function. The callers keep \<open>performanceRating\<close> between 0.9 and 1.1 and
  start a run with 1; at \<open>performanceRating = 0\<close> the program divides by zero (its
  selection time is then \<open>Infinity\<close>), which the quotient of the reals does not show.
\<close>

record Difficulty =
  colorCount :: int
  similarity :: real
  viewTime :: int
  selectionTime :: int

definition calculateDifficulty :: "int \<Rightarrow> real \<Rightarrow> Difficulty" where
  "calculateDifficulty lvl performanceRating =
    (let baseColorCount = 3;
         additionalColors = lvl div 10;
         cc = min 10 (baseColorCount + additionalColors);
         sim0 =
           (if lvl \<le> 10 then 7 / 10 + real_of_int lvl * (1 / 100)
            else if lvl \<le> 30 then 8 / 10 + real_of_int (lvl - 10) * (5 / 1000)
            else if lvl \<le> 50 then 9 / 10 + real_of_int (lvl - 30) * (3 / 1000)
            else 96 / 100 + real_of_int (lvl - 50) * (5 / 10000));
         sim = min (99 / 100) (sim0 * performanceRating);
         st0 =
           (if lvl \<le> 10 then 15
            else if lvl \<le> 80 then max 2 (15 - (lvl - 10) div 5)
            else 2);
         st = max 2 (Math_round (real_of_int st0 / performanceRating))
     in \<lparr>colorCount = cc, similarity = sim, viewTime = 3, selectionTime = st\<rparr>)"

text \<open>
  The similarity of a level before it is scaled by the performance rating and capped: the
  four bands of the function above, on their own.
\<close>

definition similarityRamp :: "int \<Rightarrow> real" where
  "similarityRamp lvl =
     (if lvl \<le> 10 then 7 / 10 + real_of_int lvl * (1 / 100)
      else if lvl \<le> 30 then 8 / 10 + real_of_int (lvl - 10) * (5 / 1000)
      else if lvl \<le> 50 then 9 / 10 + real_of_int (lvl - 30) * (3 / 1000)
      else 96 / 100 + real_of_int (lvl - 50) * (5 / 10000))"

section \<open>The state of the game component\<close>

text \<open>
  \<open>GameState\<close> is the object held by \<open>useGameLogic\<close>; \<open>Game\<close> adds the other pieces of
  React state that the round logic reads and writes. The state of the presentation
  (feedback banner, toasts, user name dialog, stored high score) is left out: no function
  below reads it.
\<close>

record GameState =
  targetColor :: string
  options :: "string list"
  score :: int
  level :: int
  timeLeft :: int
  isPlaying :: bool
  highScore :: int
  closeMatches :: int

record Game =
  gameState :: GameState
  showTarget :: bool
  comboMultiplier :: real
  isProcessingSelection :: bool
  showLossDialog :: bool

text \<open>
  The three functions imported from \<open>lib/color-utils\<close> are parameters of the model.
  \<open>generateGameColors\<close> gives the target and the options of a level, or \<open>None\<close> when
  it throws. \<open>libCalculateDifficulty\<close> is the one-argument \<open>calculateDifficulty\<close>
  that this component imports. A selection time of 0 would make the program's time bonus
  \<open>Infinity\<close> or \<open>NaN\<close>; the quotient below is the one of the reals.
\<close>

type_synonym Colors = "string \<times> string list"

record Collaborators =
  calculateColorDifference :: "string \<Rightarrow> string \<Rightarrow> real"
  libCalculateDifficulty :: "int \<Rightarrow> Difficulty"
  generateGameColors :: "int \<Rightarrow> Colors option"

definition getCloseMatchLimit :: "int \<Rightarrow> int" where
  "getCloseMatchLimit lvl = (if lvl \<le> 50 then 3 else 1)"

definition updateGameState :: "(GameState \<Rightarrow> GameState) \<Rightarrow> Game \<Rightarrow> Game" where
  "updateGameState updates g = g\<lparr>gameState := updates (gameState g)\<rparr>"

definition endGame :: "bool \<Rightarrow> Game \<Rightarrow> Game" where
  "endGame lost g =
    (let g1 = updateGameState
                (\<lambda>prev. prev\<lparr>isPlaying := False, timeLeft := 3, targetColor := [], options := []\<rparr>) g;
         g2 = g1\<lparr>isProcessingSelection := False\<rparr>
     in if lost then g2\<lparr>showLossDialog := True\<rparr> else g2)"

text \<open>\<open>handleGameEnd\<close> of \<open>useGameLogic\<close>, without its bookkeeping of the high score.\<close>

definition handleGameEndFromHook :: "bool \<Rightarrow> Game \<Rightarrow> Game" where
  "handleGameEndFromHook lost g = (endGame lost g)\<lparr>showLossDialog := True\<rparr>"

text \<open>\<open>handleGameEnd\<close> of \<open>ColorMemoryGame\<close>, which wraps the one of the hook.\<close>

definition handleGameEnd :: "bool \<Rightarrow> Game \<Rightarrow> Game" where
  "handleGameEnd lost g = (handleGameEndFromHook lost g)\<lparr>showLossDialog := True\<rparr>"

definition generateColors :: "Collaborators \<Rightarrow> int \<Rightarrow> Colors option" where
  "generateColors env lvl = generateGameColors env lvl"

section \<open>Scoring and classification\<close>

text \<open>
  The feedback message is one of four texts; \<open>Perfect c\<close> stands for
  \<open>Perfect! c x Combo!\<close> and \<open>NoFeedback\<close> for the empty string.
\<close>

datatype Feedback = NoFeedback | Perfect real | CloseEnough | OutOfCloseMatches | WrongColor

record ColorSelectionResult =
  gameOver :: bool
  feedbackMessage :: Feedback
  isExactMatch :: bool
  totalPoints :: int
  accuracyPoints :: int
  speedPoints :: int

text \<open>
  \<open>evaluateSelection\<close> is the first part of \<open>handleColorSelect\<close>: everything it computes
  into local variables before it writes any state. \<open>verdict\<close> is the object the function
  returns in the end; the other three fields are the locals that the second part uses.
\<close>

record Evaluation =
  verdict :: ColorSelectionResult
  isCloseMatch :: bool
  newCloseMatches :: int
  newComboMultiplier :: real

definition evaluateSelection :: "Collaborators \<Rightarrow> Game \<Rightarrow> string \<Rightarrow> Evaluation" where
  "evaluateSelection env g selectedColor =
    (let gs = gameState g;
         difference = calculateColorDifference env (targetColor gs) selectedColor;
         d = libCalculateDifficulty env (level gs);
         timeBonus = max 0 (real_of_int (timeLeft gs) / real_of_int (selectionTime d));
         exact = (difference < 1);
         close = (difference < 25 * (1 - similarity d));
         closeMatchLimit = getCloseMatchLimit (level gs);
         cm0 = (if level gs mod 10 = 0 then 0 else closeMatches gs);
         (cm, combo, over, msg) =
           (if exact then
              (cm0, min 5 (comboMultiplier g + 1 / 2), False,
               Perfect (min 5 (comboMultiplier g + 1 / 2)))
            else if close then
              (cm0 + 1, 1, cm0 + 1 > closeMatchLimit,
               if cm0 + 1 > closeMatchLimit then OutOfCloseMatches else CloseEnough)
            else (cm0, comboMultiplier g, True, WrongColor));
         ap = max 0 (100 - Math_round (difference * 1000));
         sp = Math_round (timeBonus * 50);
         tp = Math_round (real_of_int (ap + sp) * combo)
     in \<lparr>verdict = \<lparr>gameOver = over, feedbackMessage = msg, isExactMatch = exact,
                     totalPoints = tp, accuracyPoints = ap, speedPoints = sp\<rparr>,
         isCloseMatch = close, newCloseMatches = cm, newComboMultiplier = combo\<rparr>)"

text \<open>
  \<open>handleColorSelect\<close> is an \<open>async\<close> function without an \<open>await\<close>: it runs to its end
  when it is called, and its promise is resolved with \<open>null\<close>, resolved with a result, or
  rejected when \<open>generateColors\<close> throws. The call of \<open>generateColors\<close> is the first
  statement of its branch, so a rejected call has written no state.
\<close>

datatype Settled = ResolvedNull | Resolved ColorSelectionResult | Rejected

definition handleColorSelect :: "Collaborators \<Rightarrow> Game \<Rightarrow> string \<Rightarrow> Settled \<times> Game" where
  "handleColorSelect env g selectedColor =
    (if \<not> isPlaying (gameState g) then (ResolvedNull, g)
     else
       let e = evaluateSelection env g selectedColor; r = verdict e in
       if gameOver r then
         (Resolved r,
          (handleGameEndFromHook True
             (updateGameState
                (\<lambda>prev. prev\<lparr>isPlaying := False, closeMatches := newCloseMatches e\<rparr>) g))
          \<lparr>comboMultiplier := newComboMultiplier e\<rparr>)
       else
         (case generateColors env (level (gameState g) + 1) of
            None \<Rightarrow> (Rejected, g)
          | Some (newTarget, newOptions) \<Rightarrow>
              (Resolved r,
               (updateGameState
                  (\<lambda>prev. prev\<lparr>level := level prev + 1,
                                score := score prev + totalPoints r,
                                targetColor := newTarget,
                                options := newOptions,
                                timeLeft := 3,
                                closeMatches := newCloseMatches e\<rparr>) g)
               \<lparr>showTarget := True, comboMultiplier := newComboMultiplier e\<rparr>)))"

text \<open>
  \<open>handleColorSelection\<close> of \<open>useColorSelection\<close> is what a click on a swatch calls. The
  callbacks of the promise run before any other event, so one call is one step.
\<close>

definition handleColorSelection :: "Collaborators \<Rightarrow> Game \<Rightarrow> string \<Rightarrow> Game" where
  "handleColorSelection env g selectedColor =
    (if isProcessingSelection g \<or> \<not> isPlaying (gameState g) then g
     else
       let g1 = g\<lparr>isProcessingSelection := True\<rparr>;
           (settled, g2) = handleColorSelect env g1 selectedColor;
           g3 = (case settled of
                   Resolved r \<Rightarrow> if gameOver r then handleGameEnd True g2 else g2
                 | ResolvedNull \<Rightarrow> g2
                 | Rejected \<Rightarrow> handleGameEnd True g2)
       in g3\<lparr>isProcessingSelection := False\<rparr>)"

section \<open>Start of a run and the timer\<close>

definition startGame :: "Collaborators \<Rightarrow> Game \<Rightarrow> Game" where
  "startGame env g =
    (let g0 = g\<lparr>isProcessingSelection := False\<rparr> in
     case generateColors env 1 of
       Some (t, os) \<Rightarrow>
         if t = [] then
           updateGameState
             (\<lambda>prev. prev\<lparr>isPlaying := False, score := 0, level := 1, timeLeft := 3,
                           targetColor := [], options := [], closeMatches := 0\<rparr>) g0
         else
           (updateGameState
              (\<lambda>prev. prev\<lparr>isPlaying := True, score := 0, level := 1, timeLeft := 3,
                            targetColor := t, options := os, closeMatches := 0\<rparr>) g0)
           \<lparr>showTarget := True, comboMultiplier := 1\<rparr>
     | None \<Rightarrow>
         updateGameState
           (\<lambda>prev. prev\<lparr>isPlaying := False, score := 0, level := 1, timeLeft := 3,
                         targetColor := [], options := [], closeMatches := 0\<rparr>) g0)"

definition runTimer :: "Collaborators \<Rightarrow> Game \<Rightarrow> Game" where
  "runTimer env g =
    (if isPlaying (gameState g) then
       if timeLeft (gameState g) > 1 then
         updateGameState (\<lambda>prev. prev\<lparr>timeLeft := timeLeft prev - 1\<rparr>) g
       else if showTarget g then
         updateGameState
           (\<lambda>prev. prev\<lparr>timeLeft := selectionTime (libCalculateDifficulty env (level (gameState g)))\<rparr>)
           (g\<lparr>showTarget := False\<rparr>)
       else handleGameEndFromHook True g
     else g)"

section \<open>The swatches on screen\<close>

text \<open>
  The options are drawn by \<open>options.slice(0, Math.min(6, options.length)).map(...)\<close>;
  each swatch drawn calls \<open>handleColorSelection\<close> with its own colour when clicked. The
  grid is on screen while the game is playing and the target is hidden.
\<close>

definition renderColorSwatches :: "string list \<Rightarrow> string list" where
  "renderColorSwatches opts = (let totalColors = min 6 (length opts) in take totalColors opts)"

definition selectableColors :: "Game \<Rightarrow> string list" where
  "selectableColors g =
    (if isPlaying (gameState g) \<and> \<not> showTarget g
     then renderColorSwatches (options (gameState g)) else [])"

section \<open>Example inputs\<close>

text \<open>
  Concrete collaborators and states for the examples below. The example difference makes
  \<open>#112234\<close> a near miss of every other colour and any other pair of colours far apart;
  the example difficulty is the difficulty function above at a performance rating of 1.
\<close>

definition exampleDifference :: "string \<Rightarrow> string \<Rightarrow> real" where
  "exampleDifference a b = (if a = b then 0 else if b = ''#112234'' then 2 else 30)"

definition exampleColors :: "int \<Rightarrow> Colors option" where
  "exampleColors lvl = Some (''#445566'', [''#445566'', ''#445567'', ''#d0d0d0''])"

definition noColors :: "int \<Rightarrow> Colors option" where
  "noColors lvl = None"

definition exampleDifficulty :: "int \<Rightarrow> Difficulty" where
  "exampleDifficulty lvl = calculateDifficulty lvl 1"

definition lenientDifficulty :: "int \<Rightarrow> Difficulty" where
  "lenientDifficulty lvl = \<lparr>colorCount = 3, similarity = 1 / 2, viewTime = 3, selectionTime = 15\<rparr>"

definition exampleCollaborators :: Collaborators where
  "exampleCollaborators =
     \<lparr>calculateColorDifference = exampleDifference,
      libCalculateDifficulty = exampleDifficulty,
      generateGameColors = exampleColors\<rparr>"

definition lenientCollaborators :: Collaborators where
  "lenientCollaborators =
     \<lparr>calculateColorDifference = exampleDifference,
      libCalculateDifficulty = lenientDifficulty,
      generateGameColors = exampleColors\<rparr>"

definition failingCollaborators :: Collaborators where
  "failingCollaborators =
     \<lparr>calculateColorDifference = exampleDifference,
      libCalculateDifficulty = exampleDifficulty,
      generateGameColors = noColors\<rparr>"

definition exampleGame :: "int \<Rightarrow> int \<Rightarrow> real \<Rightarrow> Game" where
  "exampleGame lvl cm combo =
     \<lparr>gameState = \<lparr>targetColor = ''#112233'',
                   options = [''#112233'', ''#112234'', ''#ffee00''],
                   score = 0, level = lvl, timeLeft = 15,
                   isPlaying = True, highScore = 0, closeMatches = cm\<rparr>,
      showTarget = False, comboMultiplier = combo,
      isProcessingSelection = False, showLossDialog = False\<rparr>"

text \<open>Seven distinct options, as a level from 40 on asks for.\<close>

definition sevenOptions :: "string list" where
  "sevenOptions = [''#101010'', ''#202020'', ''#303030'', ''#404040'', ''#505050'', ''#606060'', ''#707070'']"

text \<open>
  A stretch of play around level 10: an exact pick at level 9 with two close matches on the
  counter opens the round of level 10; three ticks of the timer hide its target; an exact pick
  of the new target then opens the round of level 11.
\<close>

definition roundTen :: Game where
  "roundTen = handleColorSelection exampleCollaborators (exampleGame 9 2 1) ''#112233''"

definition roundTenSelecting :: Game where
  "roundTenSelecting =
     runTimer exampleCollaborators
       (runTimer exampleCollaborators (runTimer exampleCollaborators roundTen))"

definition roundEleven :: Game where
  "roundEleven = handleColorSelection exampleCollaborators roundTenSelecting ''#445566''"

section \<open>The fields of an evaluation\<close>

text \<open>Each local variable of the first part of \<open>handleColorSelect\<close>, read off on its own.\<close>

lemma isExactMatch_verdict:
  "isExactMatch (verdict (evaluateSelection env g c)) =
     (calculateColorDifference env (targetColor (gameState g)) c < 1)"
  by (simp add: evaluateSelection_def Let_def split: prod.split)

lemma isCloseMatch_eval:
  "isCloseMatch (evaluateSelection env g c) =
     (calculateColorDifference env (targetColor (gameState g)) c
        < 25 * (1 - similarity (libCalculateDifficulty env (level (gameState g)))))"
  by (simp add: evaluateSelection_def Let_def split: prod.split)

lemma newCloseMatches_eval:
  "newCloseMatches (evaluateSelection env g c) =
     (if level (gameState g) mod 10 = 0 then 0 else closeMatches (gameState g)) +
     (if \<not> isExactMatch (verdict (evaluateSelection env g c)) \<and> isCloseMatch (evaluateSelection env g c)
      then 1 else 0)"
  by (simp add: evaluateSelection_def Let_def split: prod.split)

lemma newComboMultiplier_eval:
  "newComboMultiplier (evaluateSelection env g c) =
     (if isExactMatch (verdict (evaluateSelection env g c)) then min 5 (comboMultiplier g + 1 / 2)
      else if isCloseMatch (evaluateSelection env g c) then 1 else comboMultiplier g)"
  by (simp add: evaluateSelection_def Let_def split: prod.split)

lemma gameOver_eval:
  "gameOver (verdict (evaluateSelection env g c)) =
     (if isExactMatch (verdict (evaluateSelection env g c)) then False
      else if isCloseMatch (evaluateSelection env g c)
        then newCloseMatches (evaluateSelection env g c) > getCloseMatchLimit (level (gameState g))
      else True)"
  by (simp add: evaluateSelection_def Let_def split: prod.split)

lemma accuracyPoints_eval:
  "accuracyPoints (verdict (evaluateSelection env g c)) =
     max 0 (100 - Math_round (calculateColorDifference env (targetColor (gameState g)) c * 1000))"
  by (simp add: evaluateSelection_def Let_def split: prod.split)

lemma speedPoints_eval:
  "speedPoints (verdict (evaluateSelection env g c)) =
     Math_round (max 0 (real_of_int (timeLeft (gameState g)) /
        real_of_int (selectionTime (libCalculateDifficulty env (level (gameState g))))) * 50)"
  by (simp add: evaluateSelection_def Let_def split: prod.split)

lemma totalPoints_eval:
  "totalPoints (verdict (evaluateSelection env g c)) =
     Math_round (real_of_int (accuracyPoints (verdict (evaluateSelection env g c)) +
                              speedPoints (verdict (evaluateSelection env g c)))
                 * newComboMultiplier (evaluateSelection env g c))"
  by (simp add: evaluateSelection_def Let_def split: prod.split)

lemma feedbackMessage_eval:
  "feedbackMessage (verdict (evaluateSelection env g c)) =
     (if isExactMatch (verdict (evaluateSelection env g c))
        then Perfect (newComboMultiplier (evaluateSelection env g c))
      else if isCloseMatch (evaluateSelection env g c)
        then (if gameOver (verdict (evaluateSelection env g c)) then OutOfCloseMatches else CloseEnough)
      else WrongColor)"
  by (simp add: evaluateSelection_def Let_def split: prod.split)

section \<open>The four ways a call of \<open>handleColorSelect\<close> ends\<close>

lemma handleColorSelect_not_playing:
  "\<not> isPlaying (gameState g) \<Longrightarrow> handleColorSelect env g c = (ResolvedNull, g)"
  by (simp add: handleColorSelect_def)

lemma handleColorSelect_over:
  assumes "isPlaying (gameState g)" and "gameOver (verdict (evaluateSelection env g c))"
  shows "handleColorSelect env g c =
    (Resolved (verdict (evaluateSelection env g c)),
     g\<lparr>gameState := (gameState g)\<lparr>isPlaying := False,
                                    closeMatches := newCloseMatches (evaluateSelection env g c),
                                    timeLeft := 3, targetColor := [], options := []\<rparr>,
       isProcessingSelection := False, showLossDialog := True,
       comboMultiplier := newComboMultiplier (evaluateSelection env g c)\<rparr>)"
  using assms
  by (simp add: handleColorSelect_def Let_def handleGameEndFromHook_def endGame_def updateGameState_def)

lemma handleColorSelect_advance:
  assumes "isPlaying (gameState g)" and "\<not> gameOver (verdict (evaluateSelection env g c))"
    and "generateGameColors env (level (gameState g) + 1) = Some (t, os)"
  shows "handleColorSelect env g c =
    (Resolved (verdict (evaluateSelection env g c)),
     g\<lparr>gameState := (gameState g)\<lparr>level := level (gameState g) + 1,
                                    score := score (gameState g)
                                      + totalPoints (verdict (evaluateSelection env g c)),
                                    targetColor := t, options := os, timeLeft := 3,
                                    closeMatches := newCloseMatches (evaluateSelection env g c)\<rparr>,
       showTarget := True,
       comboMultiplier := newComboMultiplier (evaluateSelection env g c)\<rparr>)"
  using assms
  by (simp add: handleColorSelect_def Let_def generateColors_def updateGameState_def)

lemma handleColorSelect_rejected:
  assumes "isPlaying (gameState g)" and "\<not> gameOver (verdict (evaluateSelection env g c))"
    and "generateGameColors env (level (gameState g) + 1) = None"
  shows "handleColorSelect env g c = (Rejected, g)"
  using assms
  by (simp add: handleColorSelect_def Let_def generateColors_def)

lemma handleColorSelect_resolved:
  assumes "handleColorSelect env g c = (Resolved r, g')"
  shows "isPlaying (gameState g) \<and> r = verdict (evaluateSelection env g c) \<and>
         closeMatches (gameState g') = newCloseMatches (evaluateSelection env g c) \<and>
         comboMultiplier g' = newComboMultiplier (evaluateSelection env g c) \<and>
         isPlaying (gameState g') = (\<not> gameOver r)"
  using assms
  by (auto simp add: handleColorSelect_def Let_def generateColors_def updateGameState_def
        handleGameEndFromHook_def endGame_def split: if_splits option.splits)

section \<open>One click on a swatch\<close>

lemma evaluateSelection_processing:
  "evaluateSelection env (g\<lparr>isProcessingSelection := b\<rparr>) c = evaluateSelection env g c"
  by (simp add: evaluateSelection_def Let_def)

lemma handleColorSelect_isPlaying:
  assumes "isPlaying (gameState g)"
  shows "isPlaying (gameState (snd (handleColorSelect env g c)))
           = (\<not> gameOver (verdict (evaluateSelection env g c)))"
proof (cases "gameOver (verdict (evaluateSelection env g c))")
  case True
  then show ?thesis using handleColorSelect_over [OF assms True] by simp
next
  case False
  show ?thesis
  proof (cases "generateGameColors env (level (gameState g) + 1)")
    case None
    then show ?thesis using handleColorSelect_rejected [OF assms False None] assms False by simp
  next
    case (Some p)
    obtain t os where "p = (t, os)" by (cases p)
    with Some have "generateGameColors env (level (gameState g) + 1) = Some (t, os)" by simp
    from handleColorSelect_advance [OF assms False this] assms False show ?thesis by simp
  qed
qed

lemma handleColorSelection_over:
  assumes "isPlaying (gameState g)" and "\<not> isProcessingSelection g"
    and "gameOver (verdict (evaluateSelection env g c))"
  shows "handleColorSelection env g c =
     g\<lparr>gameState := (gameState g)\<lparr>isPlaying := False,
                                    closeMatches := newCloseMatches (evaluateSelection env g c),
                                    timeLeft := 3, targetColor := [], options := []\<rparr>,
       isProcessingSelection := False, showLossDialog := True,
       comboMultiplier := newComboMultiplier (evaluateSelection env g c)\<rparr>"
proof -
  let ?g1 = "g\<lparr>isProcessingSelection := True\<rparr>"
  have p: "isPlaying (gameState ?g1)" using assms(1) by simp
  have o: "gameOver (verdict (evaluateSelection env ?g1 c))"
    using assms(3) by (simp add: evaluateSelection_processing)
  show ?thesis
    using assms(1,2,3)
    by (simp add: handleColorSelection_def handleColorSelect_over [OF p o]
          evaluateSelection_processing handleGameEnd_def handleGameEndFromHook_def endGame_def
          updateGameState_def)
qed

lemma handleColorSelection_advance:
  assumes "isPlaying (gameState g)" and "\<not> isProcessingSelection g"
    and "\<not> gameOver (verdict (evaluateSelection env g c))"
    and "generateGameColors env (level (gameState g) + 1) = Some (t, os)"
  shows "handleColorSelection env g c =
     g\<lparr>gameState := (gameState g)\<lparr>level := level (gameState g) + 1,
                                    score := score (gameState g)
                                      + totalPoints (verdict (evaluateSelection env g c)),
                                    targetColor := t, options := os, timeLeft := 3,
                                    closeMatches := newCloseMatches (evaluateSelection env g c)\<rparr>,
       showTarget := True,
       comboMultiplier := newComboMultiplier (evaluateSelection env g c)\<rparr>"
proof -
  let ?g1 = "g\<lparr>isProcessingSelection := True\<rparr>"
  have p: "isPlaying (gameState ?g1)" using assms(1) by simp
  have o: "\<not> gameOver (verdict (evaluateSelection env ?g1 c))"
    using assms(3) by (simp add: evaluateSelection_processing)
  have n: "generateGameColors env (level (gameState ?g1) + 1) = Some (t, os)"
    using assms(4) by simp
  show ?thesis
    using assms(1,2,3)
    by (simp add: handleColorSelection_def handleColorSelect_advance [OF p o n]
          evaluateSelection_processing)
qed

lemma handleColorSelection_rejected:
  assumes "isPlaying (gameState g)" and "\<not> isProcessingSelection g"
    and "\<not> gameOver (verdict (evaluateSelection env g c))"
    and "generateGameColors env (level (gameState g) + 1) = None"
  shows "handleColorSelection env g c =
     g\<lparr>gameState := (gameState g)\<lparr>isPlaying := False, timeLeft := 3,
                                    targetColor := [], options := []\<rparr>,
       isProcessingSelection := False, showLossDialog := True\<rparr>"
proof -
  let ?g1 = "g\<lparr>isProcessingSelection := True\<rparr>"
  have p: "isPlaying (gameState ?g1)" using assms(1) by simp
  have o: "\<not> gameOver (verdict (evaluateSelection env ?g1 c))"
    using assms(3) by (simp add: evaluateSelection_processing)
  have n: "generateGameColors env (level (gameState ?g1) + 1) = None"
    using assms(4) by simp
  show ?thesis
    using assms(1,2)
    by (simp add: handleColorSelection_def handleColorSelect_rejected [OF p o n]
          handleGameEnd_def handleGameEndFromHook_def endGame_def updateGameState_def)
qed

lemma runTimer_closeMatches:
  "closeMatches (gameState (runTimer env g)) = closeMatches (gameState g)"
  by (simp add: runTimer_def updateGameState_def handleGameEnd_def handleGameEndFromHook_def
        endGame_def)

section \<open>Facts about the example inputs\<close>

lemma exampleGame_fields:
  "isPlaying (gameState (exampleGame l cm k))"
  "level (gameState (exampleGame l cm k)) = l"
  "timeLeft (gameState (exampleGame l cm k)) = 15"
  "score (gameState (exampleGame l cm k)) = 0"
  "closeMatches (gameState (exampleGame l cm k)) = cm"
  "targetColor (gameState (exampleGame l cm k)) = ''#112233''"
  "options (gameState (exampleGame l cm k)) = [''#112233'', ''#112234'', ''#ffee00'']"
  "comboMultiplier (exampleGame l cm k) = k"
  "\<not> isProcessingSelection (exampleGame l cm k)"
  "\<not> showTarget (exampleGame l cm k)"
  by (simp_all add: exampleGame_def)

lemma exampleDifference_values:
  "exampleDifference ''#112233'' ''#112233'' = 0"
  "exampleDifference ''#112233'' ''#112234'' = 2"
  "exampleDifference ''#112233'' ''#ffee00'' = 30"
  by (simp_all add: exampleDifference_def)

lemma exampleCollaborators_fields:
  "calculateColorDifference exampleCollaborators = exampleDifference"
  "libCalculateDifficulty exampleCollaborators = exampleDifficulty"
  "generateGameColors exampleCollaborators = exampleColors"
  by (simp_all add: exampleCollaborators_def)

lemma lenientCollaborators_fields:
  "calculateColorDifference lenientCollaborators = exampleDifference"
  "libCalculateDifficulty lenientCollaborators = lenientDifficulty"
  "generateGameColors lenientCollaborators = exampleColors"
  by (simp_all add: lenientCollaborators_def)

lemma failingCollaborators_fields:
  "calculateColorDifference failingCollaborators = exampleDifference"
  "libCalculateDifficulty failingCollaborators = exampleDifficulty"
  "generateGameColors failingCollaborators = noColors"
  by (simp_all add: failingCollaborators_def)

lemma exampleDifficulty_1:
  "exampleDifficulty 1 = \<lparr>colorCount = 3, similarity = 71 / 100, viewTime = 3, selectionTime = 15\<rparr>"
  by (simp add: exampleDifficulty_def calculateDifficulty_def Math_round_def Let_def)

lemma exampleDifficulty_10:
  "exampleDifficulty 10 = \<lparr>colorCount = 4, similarity = 8 / 10, viewTime = 3, selectionTime = 15\<rparr>"
  by (simp add: exampleDifficulty_def calculateDifficulty_def Math_round_def Let_def)

section \<open>The first round, picked exactly\<close>

lemma first_round_exact_evaluation:
  assumes "level (gameState g) = 1"
    and "calculateColorDifference env (targetColor (gameState g)) c = 0"
    and "selectionTime (libCalculateDifficulty env 1) = 15"
    and "timeLeft (gameState g) = 15"
    and "comboMultiplier g = 1"
  shows "verdict (evaluateSelection env g c) =
           \<lparr>gameOver = False, feedbackMessage = Perfect (3 / 2), isExactMatch = True,
            totalPoints = 225, accuracyPoints = 100, speedPoints = 50\<rparr>"
    and "newComboMultiplier (evaluateSelection env g c) = 3 / 2"
    and "newCloseMatches (evaluateSelection env g c) = closeMatches (gameState g)"
proof -
  let ?e = "evaluateSelection env g c"
  have ex: "isExactMatch (verdict ?e)"
    using assms(2) by (simp add: isExactMatch_verdict)
  have go: "\<not> gameOver (verdict ?e)"
    using ex by (simp add: gameOver_eval)
  show combo: "newComboMultiplier ?e = 3 / 2"
    using ex assms(5) by (simp add: newComboMultiplier_eval)
  show "newCloseMatches ?e = closeMatches (gameState g)"
    using ex assms(1) by (simp add: newCloseMatches_eval)
  have ap: "accuracyPoints (verdict ?e) = 100"
    using assms(2) by (simp add: accuracyPoints_eval Math_round_def)
  have sp: "speedPoints (verdict ?e) = 50"
    using assms(1,3,4) by (simp add: speedPoints_eval Math_round_def)
  have tp: "totalPoints (verdict ?e) = 225"
    by (simp add: totalPoints_eval ap sp combo Math_round_def)
  have msg: "feedbackMessage (verdict ?e) = Perfect (3 / 2)"
    using ex by (simp add: feedbackMessage_eval combo)
  show "verdict ?e =
           \<lparr>gameOver = False, feedbackMessage = Perfect (3 / 2), isExactMatch = True,
            totalPoints = 225, accuracyPoints = 100, speedPoints = 50\<rparr>"
    using ex go ap sp tp msg by (cases "verdict ?e") simp
qed

text \<open>
  C1, as the specification has it: at level 1, with a difference of 0, the whole selection
  time of 15 left and a combo multiplier of 1, the pick is exact, worth 100 accuracy points
  and 50 speed points, the multiplier becomes 1.5 and the total is 150. The program
  multiplies by the new multiplier, so the total of the example is 225 and not 150.
\<close>

theorem first_round_total_is_not_150:
  "level (gameState (exampleGame 1 0 1)) = 1
   \<and> calculateColorDifference exampleCollaborators
        (targetColor (gameState (exampleGame 1 0 1))) ''#112233'' = 0
   \<and> selectionTime (libCalculateDifficulty exampleCollaborators 1) = 15
   \<and> timeLeft (gameState (exampleGame 1 0 1)) = 15
   \<and> comboMultiplier (exampleGame 1 0 1) = 1
   \<and> fst (handleColorSelect exampleCollaborators (exampleGame 1 0 1) ''#112233'') =
        Resolved \<lparr>gameOver = False, feedbackMessage = Perfect (3 / 2), isExactMatch = True,
                  totalPoints = 225, accuracyPoints = 100, speedPoints = 50\<rparr>
   \<and> totalPoints (verdict (evaluateSelection exampleCollaborators (exampleGame 1 0 1) ''#112233''))
        \<noteq> 150"
proof -
  let ?g = "exampleGame 1 0 1"
  have h: "level (gameState ?g) = 1"
      "calculateColorDifference exampleCollaborators (targetColor (gameState ?g)) ''#112233'' = 0"
      "selectionTime (libCalculateDifficulty exampleCollaborators 1) = 15"
      "timeLeft (gameState ?g) = 15"
      "comboMultiplier ?g = 1"
    by (simp_all add: exampleGame_fields exampleCollaborators_fields exampleDifference_values
          exampleDifficulty_1)
  note v = first_round_exact_evaluation(1) [OF h]
  have gen: "generateGameColors exampleCollaborators (level (gameState ?g) + 1)
               = Some (''#445566'', [''#445566'', ''#445567'', ''#d0d0d0''])"
    by (simp add: exampleCollaborators_fields exampleColors_def)
  have "fst (handleColorSelect exampleCollaborators ?g ''#112233'') =
          Resolved (verdict (evaluateSelection exampleCollaborators ?g ''#112233''))"
    using handleColorSelect_advance [OF exampleGame_fields(1) _ gen, of "''#112233''"]
    by (simp add: v)
  then show ?thesis using h by (simp add: v)
qed

text \<open>
  C1, amended: in that scenario, when the colours of level 2 are produced, the selection
  is resolved with an exact match, 100 accuracy points, 50 speed points and a total of
  225 points, which is (100 + 50) times the new multiplier 1.5; the multiplier becomes
  1.5, the score grows by 225 and the round advances to level 2 with the target shown.
\<close>

theorem first_round_exact_pick:
  assumes "isPlaying (gameState g)"
    and "level (gameState g) = 1"
    and "calculateColorDifference env (targetColor (gameState g)) c = 0"
    and "selectionTime (libCalculateDifficulty env 1) = 15"
    and "timeLeft (gameState g) = 15"
    and "comboMultiplier g = 1"
    and "generateGameColors env 2 = Some (t, os)"
  shows "handleColorSelect env g c =
    (Resolved \<lparr>gameOver = False, feedbackMessage = Perfect (3 / 2), isExactMatch = True,
               totalPoints = 225, accuracyPoints = 100, speedPoints = 50\<rparr>,
     g\<lparr>gameState := (gameState g)\<lparr>level := 2, score := score (gameState g) + 225,
                                    targetColor := t, options := os, timeLeft := 3\<rparr>,
       showTarget := True, comboMultiplier := 3 / 2\<rparr>)"
proof -
  note e = first_round_exact_evaluation [OF assms(2-6)]
  have go: "\<not> gameOver (verdict (evaluateSelection env g c))"
    by (simp add: e(1))
  have gen: "generateGameColors env (level (gameState g) + 1) = Some (t, os)"
    using assms(2,7) by simp
  show ?thesis
    using handleColorSelect_advance [OF assms(1) go gen] assms(2)
    by (simp add: e)
qed

theorem first_round_exact_pick_witness:
  "isPlaying (gameState (exampleGame 1 0 1))
   \<and> level (gameState (exampleGame 1 0 1)) = 1
   \<and> calculateColorDifference exampleCollaborators
        (targetColor (gameState (exampleGame 1 0 1))) ''#112233'' = 0
   \<and> selectionTime (libCalculateDifficulty exampleCollaborators 1) = 15
   \<and> timeLeft (gameState (exampleGame 1 0 1)) = 15
   \<and> comboMultiplier (exampleGame 1 0 1) = 1
   \<and> generateGameColors exampleCollaborators 2
        = Some (''#445566'', [''#445566'', ''#445567'', ''#d0d0d0''])
   \<and> handleColorSelect exampleCollaborators (exampleGame 1 0 1) ''#112233'' =
      (Resolved \<lparr>gameOver = False, feedbackMessage = Perfect (3 / 2), isExactMatch = True,
                 totalPoints = 225, accuracyPoints = 100, speedPoints = 50\<rparr>,
       (exampleGame 1 0 1)
         \<lparr>gameState := (gameState (exampleGame 1 0 1))
            \<lparr>level := 2, score := score (gameState (exampleGame 1 0 1)) + 225,
             targetColor := ''#445566'',
             options := [''#445566'', ''#445567'', ''#d0d0d0''], timeLeft := 3\<rparr>,
          showTarget := True, comboMultiplier := 3 / 2\<rparr>)"
proof -
  let ?g = "exampleGame 1 0 1"
  have h: "isPlaying (gameState ?g)"
      "level (gameState ?g) = 1"
      "calculateColorDifference exampleCollaborators (targetColor (gameState ?g)) ''#112233'' = 0"
      "selectionTime (libCalculateDifficulty exampleCollaborators 1) = 15"
      "timeLeft (gameState ?g) = 15"
      "comboMultiplier ?g = 1"
      "generateGameColors exampleCollaborators 2
         = Some (''#445566'', [''#445566'', ''#445567'', ''#d0d0d0''])"
    by (simp_all add: exampleGame_fields exampleCollaborators_fields exampleDifference_values
          exampleDifficulty_1 exampleColors_def)
  from first_round_exact_pick [OF h] h show ?thesis by blast
qed

section \<open>Verdicts on the example inputs\<close>

lemma example_verdicts:
  "isExactMatch (verdict (evaluateSelection exampleCollaborators (exampleGame l cm k) ''#112233''))"
  "\<not> isExactMatch (verdict (evaluateSelection exampleCollaborators (exampleGame l cm k) ''#112234''))"
  "\<not> isExactMatch (verdict (evaluateSelection exampleCollaborators (exampleGame l cm k) ''#ffee00''))"
  "isCloseMatch (evaluateSelection exampleCollaborators (exampleGame 1 cm k) ''#112234'')"
  "\<not> isCloseMatch (evaluateSelection exampleCollaborators (exampleGame 1 cm k) ''#ffee00'')"
  "isCloseMatch (evaluateSelection exampleCollaborators (exampleGame 10 cm k) ''#112234'')"
  by (simp_all add: isExactMatch_verdict isCloseMatch_eval exampleGame_fields
        exampleCollaborators_fields exampleDifference_values exampleDifficulty_1
        exampleDifficulty_10)

lemma lenient_verdicts:
  "\<not> isExactMatch (verdict (evaluateSelection lenientCollaborators (exampleGame l cm k) ''#112234''))"
  "isCloseMatch (evaluateSelection lenientCollaborators (exampleGame l cm k) ''#112234'')"
  by (simp_all add: isExactMatch_verdict isCloseMatch_eval exampleGame_fields
        lenientCollaborators_fields exampleDifference_values lenientDifficulty_def)

lemma handleColorSelect_fst:
  assumes "isPlaying (gameState g)"
    and "gameOver (verdict (evaluateSelection env g c))
         \<or> generateGameColors env (level (gameState g) + 1) \<noteq> None"
  shows "handleColorSelect env g c
           = (Resolved (verdict (evaluateSelection env g c)), snd (handleColorSelect env g c))"
proof (cases "gameOver (verdict (evaluateSelection env g c))")
  case True
  then show ?thesis using handleColorSelect_over [OF assms(1) True] by simp
next
  case False
  with assms(2) obtain t os where "generateGameColors env (level (gameState g) + 1) = Some (t, os)"
    by auto
  from handleColorSelect_advance [OF assms(1) False this] show ?thesis by simp
qed

lemma example_generates:
  "generateGameColors exampleCollaborators l \<noteq> None"
  "generateGameColors lenientCollaborators l \<noteq> None"
  "generateGameColors failingCollaborators l = None"
  by (simp_all add: exampleCollaborators_fields lenientCollaborators_fields
       failingCollaborators_fields exampleColors_def noColors_def)

section \<open>The combo multiplier\<close>

text \<open>
  C2, as the specification has it: every selection processed while playing sets the combo
  multiplier to \<open>min(5, combo + 0.5)\<close> when it is exact and to 1 when it is not. A wrong
  pick at a multiplier of 2.5 is resolved with the multiplier still at 2.5: the branch of the
  wrong colour assigns no new multiplier.
\<close>

theorem wrong_pick_keeps_combo:
  "isPlaying (gameState (exampleGame 1 0 (5 / 2)))
   \<and> \<not> isExactMatch (verdict (evaluateSelection exampleCollaborators (exampleGame 1 0 (5 / 2)) ''#ffee00''))
   \<and> handleColorSelect exampleCollaborators (exampleGame 1 0 (5 / 2)) ''#ffee00''
       = (Resolved (verdict (evaluateSelection exampleCollaborators (exampleGame 1 0 (5 / 2)) ''#ffee00'')),
          snd (handleColorSelect exampleCollaborators (exampleGame 1 0 (5 / 2)) ''#ffee00''))
   \<and> comboMultiplier (snd (handleColorSelect exampleCollaborators (exampleGame 1 0 (5 / 2)) ''#ffee00''))
       = 5 / 2
   \<and> comboMultiplier (snd (handleColorSelect exampleCollaborators (exampleGame 1 0 (5 / 2)) ''#ffee00''))
       \<noteq> 1
   \<and> comboMultiplier (handleColorSelection exampleCollaborators (exampleGame 1 0 (5 / 2)) ''#ffee00'')
       \<noteq> 1"
proof -
  let ?g = "exampleGame 1 0 (5 / 2)"
  let ?e = "evaluateSelection exampleCollaborators ?g ''#ffee00''"
  have over: "gameOver (verdict ?e)"
    by (simp add: gameOver_eval example_verdicts)
  have combo: "newComboMultiplier ?e = 5 / 2"
    by (simp add: newComboMultiplier_eval example_verdicts exampleGame_fields)
  have a: "comboMultiplier (snd (handleColorSelect exampleCollaborators ?g ''#ffee00'')) = 5 / 2"
    using handleColorSelect_over [OF exampleGame_fields(1) over] by (simp add: combo)
  have b: "comboMultiplier (handleColorSelection exampleCollaborators ?g ''#ffee00'') = 5 / 2"
    using handleColorSelection_over [OF exampleGame_fields(1) exampleGame_fields(9) over]
    by (simp add: combo)
  have c: "handleColorSelect exampleCollaborators ?g ''#ffee00''
       = (Resolved (verdict ?e), snd (handleColorSelect exampleCollaborators ?g ''#ffee00''))"
    using handleColorSelect_fst [OF exampleGame_fields(1)] over by blast
  show ?thesis using a b c by (simp add: example_verdicts exampleGame_fields)
qed

text \<open>
  C2, amended: for every selection that \<open>handleColorSelect\<close> resolves with a result, an
  exact match sets the combo multiplier to \<open>min(5, combo + 0.5)\<close> and a close match, within
  the limit or beyond it, sets it to 1; a wrong pick ends the run, and nothing is stated about
  the multiplier it leaves.
\<close>

theorem combo_after_selection:
  assumes "handleColorSelect env g c = (Resolved r, g')"
  shows "if isExactMatch r then comboMultiplier g' = min 5 (comboMultiplier g + 1 / 2)
         else if isCloseMatch (evaluateSelection env g c) then comboMultiplier g' = 1
         else gameOver r \<and> \<not> isPlaying (gameState g')"
  using handleColorSelect_resolved [OF assms]
  by (simp add: newComboMultiplier_eval gameOver_eval)

theorem combo_after_selection_witness:
  "handleColorSelect exampleCollaborators (exampleGame 1 0 1) ''#112233''
     = (Resolved (verdict (evaluateSelection exampleCollaborators (exampleGame 1 0 1) ''#112233'')),
        snd (handleColorSelect exampleCollaborators (exampleGame 1 0 1) ''#112233''))
   \<and> isExactMatch (verdict (evaluateSelection exampleCollaborators (exampleGame 1 0 1) ''#112233''))
   \<and> comboMultiplier (snd (handleColorSelect exampleCollaborators (exampleGame 1 0 1) ''#112233''))
       = 3 / 2
   \<and> handleColorSelect exampleCollaborators (exampleGame 1 0 5) ''#112233''
     = (Resolved (verdict (evaluateSelection exampleCollaborators (exampleGame 1 0 5) ''#112233'')),
        snd (handleColorSelect exampleCollaborators (exampleGame 1 0 5) ''#112233''))
   \<and> isExactMatch (verdict (evaluateSelection exampleCollaborators (exampleGame 1 0 5) ''#112233''))
   \<and> comboMultiplier (snd (handleColorSelect exampleCollaborators (exampleGame 1 0 5) ''#112233''))
       = 5
   \<and> handleColorSelect exampleCollaborators (exampleGame 1 0 (5 / 2)) ''#112234''
     = (Resolved (verdict (evaluateSelection exampleCollaborators (exampleGame 1 0 (5 / 2)) ''#112234'')),
        snd (handleColorSelect exampleCollaborators (exampleGame 1 0 (5 / 2)) ''#112234''))
   \<and> \<not> isExactMatch (verdict (evaluateSelection exampleCollaborators (exampleGame 1 0 (5 / 2)) ''#112234''))
   \<and> isCloseMatch (evaluateSelection exampleCollaborators (exampleGame 1 0 (5 / 2)) ''#112234'')
   \<and> comboMultiplier (snd (handleColorSelect exampleCollaborators (exampleGame 1 0 (5 / 2)) ''#112234''))
       = 1
   \<and> \<not> isCloseMatch (evaluateSelection exampleCollaborators (exampleGame 1 0 (5 / 2)) ''#ffee00'')
   \<and> gameOver (verdict (evaluateSelection exampleCollaborators (exampleGame 1 0 (5 / 2)) ''#ffee00''))
   \<and> \<not> isPlaying (gameState
           (snd (handleColorSelect exampleCollaborators (exampleGame 1 0 (5 / 2)) ''#ffee00'')))"
proof -
  have r: "handleColorSelect exampleCollaborators (exampleGame l cm k) c
     = (Resolved (verdict (evaluateSelection exampleCollaborators (exampleGame l cm k) c)),
        snd (handleColorSelect exampleCollaborators (exampleGame l cm k) c))" for l cm k c
    using handleColorSelect_fst [OF exampleGame_fields(1)] example_generates(1) by blast
  have a: "comboMultiplier (snd (handleColorSelect exampleCollaborators (exampleGame 1 0 1) ''#112233''))
       = 3 / 2"
    using combo_after_selection [OF r [of 1 0 1 "''#112233''"]]
    by (simp add: example_verdicts exampleGame_fields)
  have b: "comboMultiplier (snd (handleColorSelect exampleCollaborators (exampleGame 1 0 5) ''#112233''))
       = 5"
    using combo_after_selection [OF r [of 1 0 5 "''#112233''"]]
    by (simp add: example_verdicts exampleGame_fields)
  have c: "comboMultiplier (snd (handleColorSelect exampleCollaborators (exampleGame 1 0 (5 / 2)) ''#112234''))
       = 1"
    using combo_after_selection [OF r [of 1 0 "5 / 2" "''#112234''"]]
    by (simp add: example_verdicts exampleGame_fields)
  have d: "gameOver (verdict (evaluateSelection exampleCollaborators (exampleGame 1 0 (5 / 2)) ''#ffee00''))
       \<and> \<not> isPlaying (gameState
           (snd (handleColorSelect exampleCollaborators (exampleGame 1 0 (5 / 2)) ''#ffee00'')))"
    using combo_after_selection [OF r [of 1 0 "5 / 2" "''#ffee00''"]]
    by (simp add: example_verdicts)
  show ?thesis using a b c d r by (simp add: example_verdicts)
qed

section \<open>Close matches\<close>

text \<open>
  C3: for a selection classified as a close match (not exact, and within the level's
  tolerance) while playing, with a limit of 3 up to level 50 and of 1 beyond, the verdict is
  game over, and the game stops playing, exactly when the count of close matches after the
  reset of the block and the increment exceeds the limit.
\<close>

theorem close_match_terminal_iff:
  assumes "isPlaying (gameState g)"
    and "\<not> calculateColorDifference env (targetColor (gameState g)) c < 1"
    and "calculateColorDifference env (targetColor (gameState g)) c
           < 25 * (1 - similarity (libCalculateDifficulty env (level (gameState g))))"
  shows "gameOver (verdict (evaluateSelection env g c))
           = ((if level (gameState g) mod 10 = 0 then 0 else closeMatches (gameState g)) + 1
                > getCloseMatchLimit (level (gameState g)))
       \<and> (\<not> isPlaying (gameState (snd (handleColorSelect env g c))))
           = ((if level (gameState g) mod 10 = 0 then 0 else closeMatches (gameState g)) + 1
                > getCloseMatchLimit (level (gameState g)))
       \<and> newCloseMatches (evaluateSelection env g c)
           = (if level (gameState g) mod 10 = 0 then 0 else closeMatches (gameState g)) + 1
       \<and> getCloseMatchLimit (level (gameState g)) = (if level (gameState g) \<le> 50 then 3 else 1)"
proof -
  let ?e = "evaluateSelection env g c"
  have ne: "\<not> isExactMatch (verdict ?e)" using assms(2) by (simp add: isExactMatch_verdict)
  have cl: "isCloseMatch ?e" using assms(3) by (simp add: isCloseMatch_eval)
  have cm: "newCloseMatches ?e
      = (if level (gameState g) mod 10 = 0 then 0 else closeMatches (gameState g)) + 1"
    using ne cl by (simp add: newCloseMatches_eval)
  have go: "gameOver (verdict ?e) = (newCloseMatches ?e > getCloseMatchLimit (level (gameState g)))"
    using ne cl by (simp add: gameOver_eval)
  show ?thesis
    using go cm handleColorSelect_isPlaying [OF assms(1), of env c]
    by (simp add: getCloseMatchLimit_def)
qed

theorem close_match_terminal_iff_witness:
  "isPlaying (gameState (exampleGame 1 2 1))
   \<and> \<not> calculateColorDifference exampleCollaborators
          (targetColor (gameState (exampleGame 1 2 1))) ''#112234'' < 1
   \<and> calculateColorDifference exampleCollaborators
          (targetColor (gameState (exampleGame 1 2 1))) ''#112234''
        < 25 * (1 - similarity (libCalculateDifficulty exampleCollaborators
                                  (level (gameState (exampleGame 1 2 1)))))
   \<and> \<not> gameOver (verdict (evaluateSelection exampleCollaborators (exampleGame 1 2 1) ''#112234''))
   \<and> newCloseMatches (evaluateSelection exampleCollaborators (exampleGame 1 2 1) ''#112234'') = 3
   \<and> isPlaying (gameState (snd (handleColorSelect exampleCollaborators (exampleGame 1 2 1) ''#112234'')))
   \<and> gameOver (verdict (evaluateSelection exampleCollaborators (exampleGame 1 3 1) ''#112234''))
   \<and> newCloseMatches (evaluateSelection exampleCollaborators (exampleGame 1 3 1) ''#112234'') = 4
   \<and> \<not> isPlaying (gameState (snd (handleColorSelect exampleCollaborators (exampleGame 1 3 1) ''#112234'')))
   \<and> \<not> gameOver (verdict (evaluateSelection lenientCollaborators (exampleGame 51 0 1) ''#112234''))
   \<and> gameOver (verdict (evaluateSelection lenientCollaborators (exampleGame 51 1 1) ''#112234''))"
proof -
  have h: "\<not> calculateColorDifference exampleCollaborators
          (targetColor (gameState (exampleGame 1 cm 1))) ''#112234'' < 1"
      "calculateColorDifference exampleCollaborators
          (targetColor (gameState (exampleGame 1 cm 1))) ''#112234''
        < 25 * (1 - similarity (libCalculateDifficulty exampleCollaborators
                                  (level (gameState (exampleGame 1 cm 1)))))" for cm
    by (simp_all add: exampleGame_fields exampleCollaborators_fields exampleDifference_values
          exampleDifficulty_1)
  have h': "\<not> calculateColorDifference lenientCollaborators
          (targetColor (gameState (exampleGame 51 cm 1))) ''#112234'' < 1"
      "calculateColorDifference lenientCollaborators
          (targetColor (gameState (exampleGame 51 cm 1))) ''#112234''
        < 25 * (1 - similarity (libCalculateDifficulty lenientCollaborators
                                  (level (gameState (exampleGame 51 cm 1)))))" for cm
    by (simp_all add: exampleGame_fields lenientCollaborators_fields exampleDifference_values
          lenientDifficulty_def)
  note a = close_match_terminal_iff [OF exampleGame_fields(1) h, of 2]
  note b = close_match_terminal_iff [OF exampleGame_fields(1) h, of 3]
  note c = close_match_terminal_iff [OF exampleGame_fields(1) h', of 0]
  note d = close_match_terminal_iff [OF exampleGame_fields(1) h', of 1]
  show ?thesis
    using a b c d h [of 2]
    by (simp add: exampleGame_fields getCloseMatchLimit_def)
qed

section \<open>The reset of the close matches\<close>

lemma runTimer_tick:
  assumes "isPlaying (gameState g)" and "timeLeft (gameState g) > 1"
  shows "runTimer env g = g\<lparr>gameState := (gameState g)\<lparr>timeLeft := timeLeft (gameState g) - 1\<rparr>\<rparr>"
  using assms by (simp add: runTimer_def updateGameState_def)

lemma runTimer_reveal:
  assumes "isPlaying (gameState g)" and "\<not> timeLeft (gameState g) > 1" and "showTarget g"
  shows "runTimer env g =
           g\<lparr>showTarget := False,
             gameState := (gameState g)
               \<lparr>timeLeft := selectionTime (libCalculateDifficulty env (level (gameState g)))\<rparr>\<rparr>"
  using assms by (simp add: runTimer_def updateGameState_def)

lemma roundTen_fields:
  "isPlaying (gameState roundTen)"
  "level (gameState roundTen) = 10"
  "closeMatches (gameState roundTen) = 2"
  "timeLeft (gameState roundTen) = 3"
  "targetColor (gameState roundTen) = ''#445566''"
  "showTarget roundTen"
  "\<not> isProcessingSelection roundTen"
proof -
  let ?g = "exampleGame 9 2 1"
  let ?e = "evaluateSelection exampleCollaborators ?g ''#112233''"
  have go: "\<not> gameOver (verdict ?e)"
    by (simp add: gameOver_eval example_verdicts)
  have gen: "generateGameColors exampleCollaborators (level (gameState ?g) + 1)
               = Some (''#445566'', [''#445566'', ''#445567'', ''#d0d0d0''])"
    by (simp add: exampleCollaborators_fields exampleColors_def)
  have cm: "newCloseMatches ?e = 2"
    by (simp add: newCloseMatches_eval example_verdicts exampleGame_fields)
  note st = handleColorSelection_advance [OF exampleGame_fields(1) exampleGame_fields(9) go gen]
  show "isPlaying (gameState roundTen)"
    "level (gameState roundTen) = 10"
    "closeMatches (gameState roundTen) = 2"
    "timeLeft (gameState roundTen) = 3"
    "targetColor (gameState roundTen) = ''#445566''"
    "showTarget roundTen"
    "\<not> isProcessingSelection roundTen"
    by (simp_all add: roundTen_def st cm exampleGame_fields)
qed

lemma roundTenSelecting_fields:
  "isPlaying (gameState roundTenSelecting)"
  "level (gameState roundTenSelecting) = 10"
  "closeMatches (gameState roundTenSelecting) = 2"
  "targetColor (gameState roundTenSelecting) = ''#445566''"
  "\<not> showTarget roundTenSelecting"
  "\<not> isProcessingSelection roundTenSelecting"
proof -
  let ?t1 = "runTimer exampleCollaborators roundTen"
  let ?t2 = "runTimer exampleCollaborators ?t1"
  have t1: "?t1 = roundTen\<lparr>gameState := (gameState roundTen)\<lparr>timeLeft := 2\<rparr>\<rparr>"
    using runTimer_tick [of roundTen exampleCollaborators] by (simp add: roundTen_fields)
  have t2: "?t2 = roundTen\<lparr>gameState := (gameState roundTen)\<lparr>timeLeft := 1\<rparr>\<rparr>"
    using runTimer_tick [of ?t1 exampleCollaborators] by (simp add: t1 roundTen_fields)
  have t3: "runTimer exampleCollaborators ?t2 =
      roundTen\<lparr>showTarget := False,
               gameState := (gameState roundTen)
                 \<lparr>timeLeft := selectionTime (libCalculateDifficulty exampleCollaborators 10)\<rparr>\<rparr>"
    using runTimer_reveal [of ?t2 exampleCollaborators] by (simp add: t2 roundTen_fields)
  show "isPlaying (gameState roundTenSelecting)"
    "level (gameState roundTenSelecting) = 10"
    "closeMatches (gameState roundTenSelecting) = 2"
    "targetColor (gameState roundTenSelecting) = ''#445566''"
    "\<not> showTarget roundTenSelecting"
    "\<not> isProcessingSelection roundTenSelecting"
    by (simp_all add: roundTenSelecting_def t3 roundTen_fields)
qed

text \<open>
  C4, as the specification has it: the count of close matches is set back to 0 exactly when a
  round starts at a level divisible by 10, and at no other round boundary. The round of level 10
  starts, and awaits its selection, with the count of level 9 still stored, here 2; the stored
  count becomes 0 only with the result of that round's selection, at the start of the round of
  level 11.
\<close>

theorem round_ten_starts_unreset:
  "isPlaying (gameState roundTen)
   \<and> level (gameState roundTen) = 10
   \<and> closeMatches (gameState roundTen) = 2
   \<and> isPlaying (gameState roundTenSelecting)
   \<and> \<not> showTarget roundTenSelecting
   \<and> level (gameState roundTenSelecting) = 10
   \<and> closeMatches (gameState roundTenSelecting) \<noteq> 0
   \<and> isPlaying (gameState roundEleven)
   \<and> level (gameState roundEleven) = 11
   \<and> closeMatches (gameState roundEleven) = 0
   \<and> closeMatches (gameState roundEleven) \<noteq> closeMatches (gameState roundTenSelecting)"
proof -
  let ?g = "roundTenSelecting"
  let ?e = "evaluateSelection exampleCollaborators ?g ''#445566''"
  have ex: "isExactMatch (verdict ?e)"
    by (simp add: isExactMatch_verdict roundTenSelecting_fields exampleCollaborators_fields
          exampleDifference_def)
  have go: "\<not> gameOver (verdict ?e)"
    using ex by (simp add: gameOver_eval)
  have gen: "generateGameColors exampleCollaborators (level (gameState ?g) + 1)
               = Some (''#445566'', [''#445566'', ''#445567'', ''#d0d0d0''])"
    by (simp add: exampleCollaborators_fields exampleColors_def)
  have cm: "newCloseMatches ?e = 0"
    using ex by (simp add: newCloseMatches_eval roundTenSelecting_fields)
  note st = handleColorSelection_advance
    [OF roundTenSelecting_fields(1) roundTenSelecting_fields(6) go gen]
  have e: "isPlaying (gameState roundEleven)" "level (gameState roundEleven) = 11"
    "closeMatches (gameState roundEleven) = 0"
    by (simp_all add: roundEleven_def st cm roundTenSelecting_fields)
  show ?thesis
    by (simp add: e roundTen_fields roundTenSelecting_fields)
qed

text \<open>
  C4, amended: the count of close matches is set back to 0 exactly when the selection of a
  round at a level divisible by 10 is handled, before that pick is classified and counted: a
  resolved selection stores the old count, set back to 0 when the level of its round is
  divisible by 10 and not otherwise, plus 1 when the pick is a close match. The start of a
  round does not set the stored count back, and a tick of the timer leaves it alone.
\<close>

theorem closeMatches_reset_at_tens:
  assumes "handleColorSelect env g c = (Resolved r, g')"
  shows "closeMatches (gameState g')
           = (if level (gameState g) mod 10 = 0 then 0 else closeMatches (gameState g))
             + (if \<not> isExactMatch r \<and> isCloseMatch (evaluateSelection env g c) then 1 else 0)
       \<and> closeMatches (gameState (runTimer env g)) = closeMatches (gameState g)"
  using handleColorSelect_resolved [OF assms]
  by (simp add: newCloseMatches_eval runTimer_closeMatches)

theorem closeMatches_reset_at_tens_witness:
  "handleColorSelect exampleCollaborators (exampleGame 10 3 1) ''#112234''
     = (Resolved (verdict (evaluateSelection exampleCollaborators (exampleGame 10 3 1) ''#112234'')),
        snd (handleColorSelect exampleCollaborators (exampleGame 10 3 1) ''#112234''))
   \<and> closeMatches (gameState (exampleGame 10 3 1)) = 3
   \<and> closeMatches (gameState
         (snd (handleColorSelect exampleCollaborators (exampleGame 10 3 1) ''#112234''))) = 1
   \<and> handleColorSelect exampleCollaborators (exampleGame 1 2 1) ''#112233''
     = (Resolved (verdict (evaluateSelection exampleCollaborators (exampleGame 1 2 1) ''#112233'')),
        snd (handleColorSelect exampleCollaborators (exampleGame 1 2 1) ''#112233''))
   \<and> closeMatches (gameState
         (snd (handleColorSelect exampleCollaborators (exampleGame 1 2 1) ''#112233''))) = 2"
proof -
  have r: "handleColorSelect exampleCollaborators (exampleGame l cm k) c
     = (Resolved (verdict (evaluateSelection exampleCollaborators (exampleGame l cm k) c)),
        snd (handleColorSelect exampleCollaborators (exampleGame l cm k) c))" for l cm k c
    using handleColorSelect_fst [OF exampleGame_fields(1)] example_generates(1) by blast
  note a = closeMatches_reset_at_tens [OF r [of 10 3 1 "''#112234''"]]
  note b = closeMatches_reset_at_tens [OF r [of 1 2 1 "''#112233''"]]
  show ?thesis
    using a b r by (simp add: example_verdicts exampleGame_fields)
qed

text \<open>
  C5, as the specification has it: an exact match leaves the count of close matches
  unchanged, at any level and for any count. At level 10 with a count of 2, an exact pick is
  resolved with the count at 0: the reset of the block comes before the classification and
  does not depend on it.
\<close>

theorem exact_pick_at_level_10_resets:
  "closeMatches (gameState (exampleGame 10 2 1)) = 2
   \<and> handleColorSelect exampleCollaborators (exampleGame 10 2 1) ''#112233''
     = (Resolved (verdict (evaluateSelection exampleCollaborators (exampleGame 10 2 1) ''#112233'')),
        snd (handleColorSelect exampleCollaborators (exampleGame 10 2 1) ''#112233''))
   \<and> isExactMatch (verdict (evaluateSelection exampleCollaborators (exampleGame 10 2 1) ''#112233''))
   \<and> closeMatches (gameState
         (snd (handleColorSelect exampleCollaborators (exampleGame 10 2 1) ''#112233''))) = 0
   \<and> closeMatches (gameState
         (snd (handleColorSelect exampleCollaborators (exampleGame 10 2 1) ''#112233'')))
       \<noteq> closeMatches (gameState (exampleGame 10 2 1))
   \<and> closeMatches (gameState
         (handleColorSelection exampleCollaborators (exampleGame 10 2 1) ''#112233'')) = 0"
proof -
  let ?g = "exampleGame 10 2 1"
  let ?e = "evaluateSelection exampleCollaborators ?g ''#112233''"
  have r: "handleColorSelect exampleCollaborators ?g ''#112233''
     = (Resolved (verdict ?e), snd (handleColorSelect exampleCollaborators ?g ''#112233''))"
    using handleColorSelect_fst [OF exampleGame_fields(1)] example_generates(1) by blast
  have cm: "newCloseMatches ?e = 0"
    by (simp add: newCloseMatches_eval example_verdicts exampleGame_fields)
  have a: "closeMatches (gameState (snd (handleColorSelect exampleCollaborators ?g ''#112233''))) = 0"
    using handleColorSelect_resolved [OF r] by (simp add: cm)
  have go: "\<not> gameOver (verdict ?e)"
    by (simp add: gameOver_eval example_verdicts)
  have gen: "generateGameColors exampleCollaborators (level (gameState ?g) + 1)
               = Some (''#445566'', [''#445566'', ''#445567'', ''#d0d0d0''])"
    by (simp add: exampleCollaborators_fields exampleColors_def)
  have b: "closeMatches (gameState (handleColorSelection exampleCollaborators ?g ''#112233'')) = 0"
    using handleColorSelection_advance [OF exampleGame_fields(1) exampleGame_fields(9) go gen]
    by (simp add: cm)
  show ?thesis using r a b by (simp add: example_verdicts exampleGame_fields)
qed

text \<open>
  C5, amended: a selection resolved as an exact match never increments the count of close
  matches; it leaves the count unchanged when the level is not divisible by 10, and stores the
  count 0 of the block's reset when the level is divisible by 10.
\<close>

theorem exact_match_closeMatches:
  assumes "handleColorSelect env g c = (Resolved r, g')"
    and "isExactMatch r"
  shows "closeMatches (gameState g')
           = (if level (gameState g) mod 10 = 0 then 0 else closeMatches (gameState g))"
  using handleColorSelect_resolved [OF assms(1)] assms(2)
  by (simp add: newCloseMatches_eval)

theorem exact_match_closeMatches_witness:
  "handleColorSelect exampleCollaborators (exampleGame 7 2 1) ''#112233''
     = (Resolved (verdict (evaluateSelection exampleCollaborators (exampleGame 7 2 1) ''#112233'')),
        snd (handleColorSelect exampleCollaborators (exampleGame 7 2 1) ''#112233''))
   \<and> isExactMatch (verdict (evaluateSelection exampleCollaborators (exampleGame 7 2 1) ''#112233''))
   \<and> closeMatches (gameState
         (snd (handleColorSelect exampleCollaborators (exampleGame 7 2 1) ''#112233''))) = 2
   \<and> handleColorSelect exampleCollaborators (exampleGame 20 2 1) ''#112233''
     = (Resolved (verdict (evaluateSelection exampleCollaborators (exampleGame 20 2 1) ''#112233'')),
        snd (handleColorSelect exampleCollaborators (exampleGame 20 2 1) ''#112233''))
   \<and> isExactMatch (verdict (evaluateSelection exampleCollaborators (exampleGame 20 2 1) ''#112233''))
   \<and> closeMatches (gameState
         (snd (handleColorSelect exampleCollaborators (exampleGame 20 2 1) ''#112233''))) = 0"
proof -
  have r: "handleColorSelect exampleCollaborators (exampleGame l cm k) c
     = (Resolved (verdict (evaluateSelection exampleCollaborators (exampleGame l cm k) c)),
        snd (handleColorSelect exampleCollaborators (exampleGame l cm k) c))" for l cm k c
    using handleColorSelect_fst [OF exampleGame_fields(1)] example_generates(1) by blast
  note a = exact_match_closeMatches [OF r [of 7 2 1 "''#112233''"] example_verdicts(1)]
  note b = exact_match_closeMatches [OF r [of 20 2 1 "''#112233''"] example_verdicts(1)]
  show ?thesis
    using a b r by (simp add: example_verdicts exampleGame_fields)
qed

section \<open>Clicks that are ignored\<close>

text \<open>
  C6: a call of \<open>handleColorSelection\<close> while a selection is being processed, or while the
  game is not playing, returns at once: the whole state, and with it the score, the level and
  the combo multiplier, is as before. \<open>handleColorSelect\<close> itself resolves with \<open>null\<close>
  and writes nothing when the game is not playing.
\<close>

theorem ignored_selection_is_noop:
  assumes "isProcessingSelection g \<or> \<not> isPlaying (gameState g)"
  shows "handleColorSelection env g c = g
       \<and> score (gameState (handleColorSelection env g c)) = score (gameState g)
       \<and> level (gameState (handleColorSelection env g c)) = level (gameState g)
       \<and> comboMultiplier (handleColorSelection env g c) = comboMultiplier g
       \<and> (\<not> isPlaying (gameState g) \<longrightarrow> handleColorSelect env g c = (ResolvedNull, g))"
  using assms by (auto simp add: handleColorSelection_def handleColorSelect_not_playing)

theorem ignored_selection_is_noop_witness:
  "isProcessingSelection ((exampleGame 3 1 2)\<lparr>isProcessingSelection := True\<rparr>)
   \<and> handleColorSelection exampleCollaborators
        ((exampleGame 3 1 2)\<lparr>isProcessingSelection := True\<rparr>) ''#112233''
       = (exampleGame 3 1 2)\<lparr>isProcessingSelection := True\<rparr>
   \<and> \<not> isPlaying (gameState (endGame True (exampleGame 3 1 2)))
   \<and> handleColorSelection exampleCollaborators (endGame True (exampleGame 3 1 2)) ''#112233''
       = endGame True (exampleGame 3 1 2)
   \<and> handleColorSelect exampleCollaborators (endGame True (exampleGame 3 1 2)) ''#112233''
       = (ResolvedNull, endGame True (exampleGame 3 1 2))"
proof -
  have p: "isProcessingSelection ((exampleGame 3 1 2)\<lparr>isProcessingSelection := True\<rparr>)"
    by simp
  have q: "\<not> isPlaying (gameState (endGame True (exampleGame 3 1 2)))"
    by (simp add: endGame_def updateGameState_def)
  from ignored_selection_is_noop [OF disjI1 [OF p], of exampleCollaborators "''#112233''"]
       ignored_selection_is_noop [OF disjI2 [OF q], of exampleCollaborators "''#112233''"]
       p q
  show ?thesis by simp
qed

section \<open>Failure of the colour generator\<close>

lemma failing_verdicts:
  "isExactMatch (verdict (evaluateSelection failingCollaborators (exampleGame l cm k) ''#112233''))"
  "\<not> calculateColorDifference failingCollaborators
        (targetColor (gameState (exampleGame 1 cm k))) ''#ffee00'' < 1"
  "\<not> calculateColorDifference failingCollaborators
        (targetColor (gameState (exampleGame 1 cm k))) ''#ffee00''
      < 25 * (1 - similarity (libCalculateDifficulty failingCollaborators
                                (level (gameState (exampleGame 1 cm k)))))"
  by (simp_all add: isExactMatch_verdict exampleGame_fields failingCollaborators_fields
        exampleDifference_values exampleDifficulty_1)

text \<open>
  C9: when \<open>generateGameColors\<close> throws for the next level while a selection is handled, the
  click ends the run: the game is no longer playing, the loss dialog is open, the target and the
  options are cleared, the processing flag is down, and score and level are as before. This
  state is the one that a wrong pick \<open>w\<close> leaves, up to the two counters that a new run sets
  again (the close matches and the combo multiplier). So the game is not left playing with its
  target shown and no options. When the generator throws at the start of a run, \<open>startGame\<close>
  leaves the game not playing as well.
\<close>

theorem generation_failure_ends_run:
  assumes "isPlaying (gameState g)"
    and "\<not> isProcessingSelection g"
    and "generateGameColors env (level (gameState g) + 1) = None"
    and "\<not> calculateColorDifference env (targetColor (gameState g)) w < 1"
    and "\<not> calculateColorDifference env (targetColor (gameState g)) w
           < 25 * (1 - similarity (libCalculateDifficulty env (level (gameState g))))"
  shows "\<not> isPlaying (gameState (handleColorSelection env g c))
       \<and> showLossDialog (handleColorSelection env g c)
       \<and> \<not> (isPlaying (gameState (handleColorSelection env g c))
             \<and> showTarget (handleColorSelection env g c)
             \<and> options (gameState (handleColorSelection env g c)) = [])
       \<and> gameOver (verdict (evaluateSelection env g w))
       \<and> handleColorSelection env g c
           = (handleColorSelection env g w)
               \<lparr>gameState := (gameState (handleColorSelection env g w))
                   \<lparr>closeMatches := closeMatches (gameState (handleColorSelection env g c))\<rparr>,
                comboMultiplier := comboMultiplier (handleColorSelection env g c)\<rparr>
       \<and> handleColorSelection env g w
           = g\<lparr>gameState := (gameState g)
                   \<lparr>isPlaying := False,
                    closeMatches := newCloseMatches (evaluateSelection env g w),
                    timeLeft := 3, targetColor := [], options := []\<rparr>,
                isProcessingSelection := False, showLossDialog := True\<rparr>
       \<and> (generateGameColors env 1 = None \<longrightarrow>
            \<not> isPlaying (gameState (startGame env g))
            \<and> options (gameState (startGame env g)) = [])"
proof -
  let ?w = "evaluateSelection env g w"
  have sg: "generateGameColors env 1 = None \<longrightarrow>
            \<not> isPlaying (gameState (startGame env g))
            \<and> options (gameState (startGame env g)) = []"
    by (simp add: startGame_def generateColors_def updateGameState_def)
  have wne: "\<not> isExactMatch (verdict ?w)" using assms(4) by (simp add: isExactMatch_verdict)
  have wnc: "\<not> isCloseMatch ?w" using assms(5) by (simp add: isCloseMatch_eval)
  have wo: "gameOver (verdict ?w)" using wne wnc by (simp add: gameOver_eval)
  have wc: "newComboMultiplier ?w = comboMultiplier g"
    using wne wnc by (simp add: newComboMultiplier_eval)
  note W = handleColorSelection_over [OF assms(1,2) wo]
  show ?thesis
  proof (cases "gameOver (verdict (evaluateSelection env g c))")
    case True
    note C = handleColorSelection_over [OF assms(1,2) True]
    show ?thesis using sg by (simp add: C W wo wc)
  next
    case False
    note C = handleColorSelection_rejected [OF assms(1,2) False assms(3)]
    show ?thesis using sg by (simp add: C W wo wc)
  qed
qed

theorem generation_failure_ends_run_witness:
  "isPlaying (gameState (exampleGame 1 0 2))
   \<and> \<not> isProcessingSelection (exampleGame 1 0 2)
   \<and> generateGameColors failingCollaborators (level (gameState (exampleGame 1 0 2)) + 1) = None
   \<and> \<not> gameOver (verdict (evaluateSelection failingCollaborators (exampleGame 1 0 2) ''#112233''))
   \<and> \<not> isPlaying (gameState (handleColorSelection failingCollaborators (exampleGame 1 0 2) ''#112233''))
   \<and> showLossDialog (handleColorSelection failingCollaborators (exampleGame 1 0 2) ''#112233'')
   \<and> options (gameState (handleColorSelection failingCollaborators (exampleGame 1 0 2) ''#112233''))
       = []
   \<and> handleColorSelection failingCollaborators (exampleGame 1 0 2) ''#112233''
       = handleColorSelection failingCollaborators (exampleGame 1 0 2) ''#ffee00''
   \<and> generateGameColors failingCollaborators 1 = None
   \<and> \<not> isPlaying (gameState (startGame failingCollaborators (exampleGame 1 0 2)))"
proof -
  let ?g = "exampleGame 1 0 2"
  have n: "generateGameColors failingCollaborators (level (gameState ?g) + 1) = None"
    by (rule example_generates(3))
  have go: "\<not> gameOver (verdict (evaluateSelection failingCollaborators ?g ''#112233''))"
    by (simp add: gameOver_eval failing_verdicts)
  have cm: "newCloseMatches (evaluateSelection failingCollaborators ?g ''#ffee00'') = 0"
    using failing_verdicts(2,3) [of 0 2]
    by (simp add: newCloseMatches_eval isExactMatch_verdict isCloseMatch_eval exampleGame_fields)
  note t = generation_failure_ends_run
    [OF exampleGame_fields(1) exampleGame_fields(9) n failing_verdicts(2,3), of "''#112233''"]
  have eq: "handleColorSelection failingCollaborators ?g ''#112233''
       = handleColorSelection failingCollaborators ?g ''#ffee00''"
    using t handleColorSelection_rejected [OF exampleGame_fields(1) exampleGame_fields(9) go n]
    by (simp add: cm exampleGame_fields)
  have op: "options (gameState (handleColorSelection failingCollaborators ?g ''#112233'')) = []"
    using handleColorSelection_rejected [OF exampleGame_fields(1) exampleGame_fields(9) go n]
    by simp
  have n1: "generateGameColors failingCollaborators 1 = None"
    by (rule example_generates(3))
  show ?thesis
    using t n n1 go eq op by (simp add: exampleGame_fields)
qed

section \<open>The difficulty curve\<close>

lemma similarity_calculateDifficulty:
  "similarity (calculateDifficulty lvl pr) = min (99 / 100) (similarityRamp lvl * pr)"
  by (simp add: calculateDifficulty_def similarityRamp_def Let_def)

lemma colorCount_calculateDifficulty:
  "colorCount (calculateDifficulty lvl pr) = min 10 (3 + lvl div 10)"
  by (simp add: calculateDifficulty_def Let_def)

lemma ramp_bands:
  "lvl \<le> 10 \<Longrightarrow> similarityRamp lvl = 7 / 10 + real_of_int lvl / 100"
  "10 < lvl \<Longrightarrow> lvl \<le> 30 \<Longrightarrow> similarityRamp lvl = 8 / 10 + (real_of_int lvl - 10) / 200"
  "30 < lvl \<Longrightarrow> lvl \<le> 50 \<Longrightarrow> similarityRamp lvl = 9 / 10 + (real_of_int lvl - 30) * 3 / 1000"
  "50 < lvl \<Longrightarrow> similarityRamp lvl = 96 / 100 + (real_of_int lvl - 50) / 2000"
  by (simp_all add: similarityRamp_def)

lemma ramp_Suc: "similarityRamp lvl \<le> similarityRamp (lvl + 1)"
proof -
  have s: "real_of_int (lvl + 1) = real_of_int lvl + 1" by simp
  consider "lvl < 10" | "lvl = 10" | "10 < lvl" "lvl < 30" | "lvl = 30"
    | "30 < lvl" "lvl < 50" | "lvl = 50" | "50 < lvl"
    by linarith
  then show ?thesis
  proof cases
    case 1 then show ?thesis by (simp add: ramp_bands(1))
  next
    case 2 then show ?thesis by (simp add: similarityRamp_def)
  next
    case 3 then show ?thesis by (simp add: ramp_bands(2))
  next
    case 4 then show ?thesis by (simp add: similarityRamp_def)
  next
    case 5 then show ?thesis by (simp add: ramp_bands(3))
  next
    case 6 then show ?thesis by (simp add: similarityRamp_def)
  next
    case 7 then show ?thesis by (simp add: ramp_bands(4))
  qed
qed

lemma ramp_mono_nat: "similarityRamp a \<le> similarityRamp (a + int n)"
proof (induction n)
  case 0
  show ?case by simp
next
  case (Suc n)
  have "similarityRamp (a + int n) \<le> similarityRamp (a + int n + 1)" by (rule ramp_Suc)
  also have "a + int n + 1 = a + int (Suc n)" by simp
  finally show ?case using Suc by linarith
qed

lemma ramp_mono:
  assumes "a \<le> b"
  shows "similarityRamp a \<le> similarityRamp b"
proof -
  from assms have "b = a + int (nat (b - a))" by simp
  then show ?thesis using ramp_mono_nat [of a "nat (b - a)"] by simp
qed

lemma ramp_below_cap: "lvl \<le> 50 \<Longrightarrow> similarityRamp lvl \<le> 96 / 100"
proof -
  assume "lvl \<le> 50"
  then have "similarityRamp lvl \<le> similarityRamp 50" by (rule ramp_mono)
  also have "similarityRamp 50 = 96 / 100" by (simp add: similarityRamp_def)
  finally show ?thesis .
qed

text \<open>
  C7: for every level from 1 on, the similarity of the difficulty function at a performance
  rating of 1 follows the four bands, 0.70 + 0.01 L up to level 10, 0.80 + 0.005 (L - 10) up to
  level 30, 0.90 + 0.003 (L - 30) up to level 50 and 0.96 + 0.0005 (L - 50) beyond, the last band
  capped at 0.99; the cap is never reached in the first three bands. The similarity does not
  decrease when the level grows, for any performance rating that is not negative, and it never
  exceeds 0.99.
\<close>

theorem similarity_ramp:
  assumes "1 \<le> L"
  shows "similarity (calculateDifficulty L 1) =
           (if L \<le> 10 then 70 / 100 + 1 / 100 * real_of_int L
            else if L \<le> 30 then 80 / 100 + 5 / 1000 * real_of_int (L - 10)
            else if L \<le> 50 then 90 / 100 + 3 / 1000 * real_of_int (L - 30)
            else min (99 / 100) (96 / 100 + 5 / 10000 * real_of_int (L - 50)))
       \<and> (\<forall>L' pr. L \<le> L' \<and> 0 \<le> pr \<longrightarrow>
             similarity (calculateDifficulty L pr) \<le> similarity (calculateDifficulty L' pr))
       \<and> (\<forall>pr. similarity (calculateDifficulty L pr) \<le> 99 / 100)"
proof (intro conjI allI impI)
  have "similarityRamp L \<le> 96 / 100" if "L \<le> 50" using that by (rule ramp_below_cap)
  then have "min (99 / 100) (similarityRamp L) = similarityRamp L" if "L \<le> 50" using that by fastforce
  then show "similarity (calculateDifficulty L 1) =
           (if L \<le> 10 then 70 / 100 + 1 / 100 * real_of_int L
            else if L \<le> 30 then 80 / 100 + 5 / 1000 * real_of_int (L - 10)
            else if L \<le> 50 then 90 / 100 + 3 / 1000 * real_of_int (L - 30)
            else min (99 / 100) (96 / 100 + 5 / 10000 * real_of_int (L - 50)))"
    by (simp add: similarity_calculateDifficulty) (simp add: similarityRamp_def)
next
  fix L' :: int and pr :: real
  assume a: "L \<le> L' \<and> 0 \<le> pr"
  then have "similarityRamp L \<le> similarityRamp L'" by (simp add: ramp_mono)
  then have "similarityRamp L * pr \<le> similarityRamp L' * pr" using a by (simp add: mult_right_mono)
  then show "similarity (calculateDifficulty L pr) \<le> similarity (calculateDifficulty L' pr)"
    by (simp add: similarity_calculateDifficulty min_le_iff_disj)
next
  fix pr :: real
  show "similarity (calculateDifficulty L pr) \<le> 99 / 100"
    by (simp add: similarity_calculateDifficulty)
qed

theorem similarity_ramp_witness:
  "(1::int) \<le> 25
   \<and> similarity (calculateDifficulty 25 1) = 875 / 1000
   \<and> (25::int) \<le> 120 \<and> (0::real) \<le> 1
   \<and> similarity (calculateDifficulty 25 1) \<le> similarity (calculateDifficulty 120 1)
   \<and> similarity (calculateDifficulty 25 1) \<le> 99 / 100
   \<and> similarity (calculateDifficulty 120 1) = 99 / 100"
proof -
  have a: "(1::int) \<le> 25" and b: "(1::int) \<le> 120" by simp_all
  from similarity_ramp [OF a] similarity_ramp [OF b] show ?thesis by simp
qed

text \<open>
  C8: for every level from 1 on, the number of colours is \<open>min(10, 3 + floor(L / 10))\<close>;
  it lies between 3 and 10 and does not decrease when the level grows.
\<close>

theorem colorCount_formula:
  assumes "1 \<le> L"
  shows "colorCount (calculateDifficulty L pr) = min 10 (3 + L div 10)
       \<and> 3 \<le> colorCount (calculateDifficulty L pr)
       \<and> colorCount (calculateDifficulty L pr) \<le> 10
       \<and> (\<forall>L'. L \<le> L' \<longrightarrow>
             colorCount (calculateDifficulty L pr) \<le> colorCount (calculateDifficulty L' pr))"
proof (intro conjI allI impI)
  show "colorCount (calculateDifficulty L pr) = min 10 (3 + L div 10)"
    by (rule colorCount_calculateDifficulty)
  have "0 \<le> L div 10" using assms by (simp add: pos_imp_zdiv_nonneg_iff)
  then show "3 \<le> colorCount (calculateDifficulty L pr)"
    by (simp add: colorCount_calculateDifficulty)
  show "colorCount (calculateDifficulty L pr) \<le> 10"
    by (simp add: colorCount_calculateDifficulty)
next
  fix L' :: int
  assume "L \<le> L'"
  then have "L div 10 \<le> L' div 10" by (simp add: zdiv_mono1)
  then show "colorCount (calculateDifficulty L pr) \<le> colorCount (calculateDifficulty L' pr)"
    by (simp add: colorCount_calculateDifficulty min_le_iff_disj)
qed

theorem colorCount_formula_witness:
  "(1::int) \<le> 9 \<and> colorCount (calculateDifficulty 9 1) = 3
   \<and> (9::int) \<le> 45 \<and> colorCount (calculateDifficulty 9 1) \<le> colorCount (calculateDifficulty 45 1)
   \<and> colorCount (calculateDifficulty 45 1) = 7
   \<and> colorCount (calculateDifficulty 300 1) = 10"
proof -
  have a: "(1::int) \<le> 9" and b: "(1::int) \<le> 45" and c: "(1::int) \<le> 300" by simp_all
  from colorCount_formula [OF a, of 1] colorCount_formula [OF b, of 1]
       colorCount_formula [OF c, of 1]
  show ?thesis by simp
qed

section \<open>Which options can be clicked\<close>

lemma renderColorSwatches_take: "renderColorSwatches opts = take 6 opts"
  by (simp add: renderColorSwatches_def Let_def min_def)

text \<open>
  C10: the swatches drawn are the first \<open>min(6, length)\<close> options, in their order; the
  colours that a click can select are among them. When the options are distinct, an option at
  the seventh place or later is not among the swatches, and a level whose colour count is 7 or
  more, with as many options as that count, shows exactly six of them.
\<close>

theorem only_first_six_selectable:
  "renderColorSwatches opts = take 6 opts
   \<and> length (renderColorSwatches opts) = min 6 (length opts)
   \<and> (\<forall>i. i < length (renderColorSwatches opts) \<longrightarrow> renderColorSwatches opts ! i = opts ! i)
   \<and> (distinct opts \<longrightarrow>
        (\<forall>i. 6 \<le> i \<and> i < length opts \<longrightarrow> opts ! i \<notin> set (renderColorSwatches opts)))
   \<and> set (selectableColors g) \<subseteq> set (take 6 (options (gameState g)))
   \<and> (7 \<le> colorCount (calculateDifficulty L pr)
        \<and> int (length opts) = colorCount (calculateDifficulty L pr) \<longrightarrow>
        length (renderColorSwatches opts) = 6 \<and> length (renderColorSwatches opts) < length opts)"
proof (intro conjI allI impI)
  show "renderColorSwatches opts = take 6 opts" by (rule renderColorSwatches_take)
  show "length (renderColorSwatches opts) = min 6 (length opts)"
    by (simp add: renderColorSwatches_take min.commute)
  show "set (selectableColors g) \<subseteq> set (take 6 (options (gameState g)))"
    by (auto simp add: selectableColors_def renderColorSwatches_take)
next
  fix i assume "i < length (renderColorSwatches opts)"
  then show "renderColorSwatches opts ! i = opts ! i"
    by (simp add: renderColorSwatches_take)
next
  fix i assume d: "distinct opts" and i: "6 \<le> i \<and> i < length opts"
  show "opts ! i \<notin> set (renderColorSwatches opts)"
  proof
    assume "opts ! i \<in> set (renderColorSwatches opts)"
    then obtain j where j: "j < length (take 6 opts)" "take 6 opts ! j = opts ! i"
      by (auto simp add: renderColorSwatches_take in_set_conv_nth)
    then have "j < 6" "j < length opts" "opts ! j = opts ! i" by simp_all
    with d i have "j = i" by (simp add: nth_eq_iff_index_eq)
    with \<open>j < 6\<close> i show False by simp
  qed
next
  assume "7 \<le> colorCount (calculateDifficulty L pr)
        \<and> int (length opts) = colorCount (calculateDifficulty L pr)"
  then have "7 \<le> length opts" by linarith
  then show "length (renderColorSwatches opts) = 6"
    and "length (renderColorSwatches opts) < length opts"
    by (simp_all add: renderColorSwatches_take)
qed

theorem only_first_six_selectable_witness:
  "distinct sevenOptions
   \<and> 7 \<le> colorCount (calculateDifficulty 45 1)
   \<and> int (length sevenOptions) = colorCount (calculateDifficulty 45 1)
   \<and> renderColorSwatches sevenOptions
       = [''#101010'', ''#202020'', ''#303030'', ''#404040'', ''#505050'', ''#606060'']
   \<and> (5::nat) < length (renderColorSwatches sevenOptions)
   \<and> renderColorSwatches sevenOptions ! 5 = sevenOptions ! 5
   \<and> (6::nat) \<le> 6 \<and> 6 < length sevenOptions
   \<and> sevenOptions ! 6 \<notin> set (renderColorSwatches sevenOptions)
   \<and> length (renderColorSwatches sevenOptions) = 6
   \<and> length (renderColorSwatches sevenOptions) < length sevenOptions"
proof -
  have d: "distinct sevenOptions" by (simp add: sevenOptions_def)
  have c: "colorCount (calculateDifficulty 45 1) = 7"
    by (simp add: colorCount_calculateDifficulty)
  have l: "length sevenOptions = 7" by (simp add: sevenOptions_def)
  note t = only_first_six_selectable [of sevenOptions "exampleGame 45 0 1" 45 1]
  have r: "renderColorSwatches sevenOptions
       = [''#101010'', ''#202020'', ''#303030'', ''#404040'', ''#505050'', ''#606060'']"
    using t by (simp add: sevenOptions_def)
  from t d have "\<forall>i. 6 \<le> i \<and> i < length sevenOptions \<longrightarrow>
                   sevenOptions ! i \<notin> set (renderColorSwatches sevenOptions)"
    by blast
  then have "6 \<le> (6::nat) \<and> 6 < length sevenOptions \<longrightarrow>
               sevenOptions ! 6 \<notin> set (renderColorSwatches sevenOptions)"
    by blast
  then have n: "sevenOptions ! 6 \<notin> set (renderColorSwatches sevenOptions)"
    using l by simp
  from t have "\<forall>i. i < length (renderColorSwatches sevenOptions) \<longrightarrow>
                 renderColorSwatches sevenOptions ! i = sevenOptions ! i"
    by blast
  then have "5 < length (renderColorSwatches sevenOptions) \<longrightarrow>
               renderColorSwatches sevenOptions ! 5 = sevenOptions ! 5"
    by blast
  moreover have k: "5 < length (renderColorSwatches sevenOptions)"
    using r by simp
  ultimately have e: "renderColorSwatches sevenOptions ! 5 = sevenOptions ! 5"
    by blast
  have s: "length (renderColorSwatches sevenOptions) = 6"
    using r by simp
  show ?thesis using d c l r n e k s by simp
qed

end
